theory Spec2Isabelle
  imports Main "HOL-Library.Word"
begin

section \<open>The flat node arena of jsopt (include/jsopt/node.h, src/node.c)\<close>

text \<open>
  The development embeds the node record, the kind classification macros and the
  arena operations of \<^verbatim>\<open>node.c\<close> as HOL functions over machine words.
  C's \<^verbatim>\<open>uint8_t\<close>, \<^verbatim>\<open>uint16_t\<close> and \<^verbatim>\<open>uint32_t\<close> are
  \<open>8 word\<close>, \<open>16 word\<close> and \<open>32 word\<close>: addition and subtraction wrap around as
  in C.
\<close>

type_synonym u8 = "8 word"
type_synonym u16 = "16 word"
type_synonym u32 = "32 word"

subsection \<open>Node record\<close>

text \<open>
  \<^verbatim>\<open>typedef struct { uint8_t kind; uint8_t flags; uint16_t op; uint32_t start;
  uint32_t data[2]; } Node;\<close> The two-element array \<^verbatim>\<open>data\<close> is the pair of
  fields \<open>data0\<close>, \<open>data1\<close>.
\<close>

record Node =
  kind :: u8
  flags :: u8
  op :: u16
  start :: u32
  data0 :: u32
  data1 :: u32

text \<open>A record of sixteen zero bytes, as an untouched page of the mapping holds it.\<close>

definition zero_node :: Node where
  "zero_node = \<lparr>kind = 0, flags = 0, op = 0, start = 0, data0 = 0, data1 = 0\<rparr>"

subsection \<open>Kinds and classification macros\<close>

text \<open>
  \<^verbatim>\<open>NodeKind\<close> is a C enum whose enumerators all lie in \<open>0..255\<close>; a node stores it in
  its \<^verbatim>\<open>uint8_t kind\<close> field. The model takes a kind as that 8-bit value. Only the
  enumerators the development names are listed.
\<close>

type_synonym NodeKind = u8

definition NODE_IDENT :: NodeKind where "NODE_IDENT = 0"
definition NODE_NUMBER :: NodeKind where "NODE_NUMBER = 1"
definition NODE_STRING :: NodeKind where "NODE_STRING = 2"
definition NODE_PLUS :: NodeKind where "NODE_PLUS = 72"
definition NODE_EOF :: NodeKind where "NODE_EOF = 127"
definition NODE_BINARY :: NodeKind where "NODE_BINARY = 128"

definition IS_LEAF :: "NodeKind \<Rightarrow> bool" where
  "IS_LEAF k = (k < 16)"

definition IS_KEYWORD :: "NodeKind \<Rightarrow> bool" where
  "IS_KEYWORD k = (k \<ge> 16 \<and> k < 56)"

definition IS_PUNCT :: "NodeKind \<Rightarrow> bool" where
  "IS_PUNCT k = (k \<ge> 56 \<and> k < 72)"

definition IS_OPERATOR :: "NodeKind \<Rightarrow> bool" where
  "IS_OPERATOR k = (k \<ge> 72 \<and> k < 127)"

definition IS_TOKEN :: "NodeKind \<Rightarrow> bool" where
  "IS_TOKEN k = (k \<le> 127)"

definition IS_COMPOUND :: "NodeKind \<Rightarrow> bool" where
  "IS_COMPOUND k = (k > 127)"

text \<open>
  The header has no macro for the end-of-input class; it is the single enumerator
  \<^verbatim>\<open>NODE_EOF = 127\<close>.
\<close>

definition is_eof :: "NodeKind \<Rightarrow> bool" where
  "is_eof k = (k = NODE_EOF)"

subsection \<open>Node access macros\<close>

definition NODE_NULL_IDX :: u32 where "NODE_NULL_IDX = 0"
definition NODE_LEN_OVERFLOW :: u16 where "NODE_LEN_OVERFLOW = 0xFFFF"

definition NODE_VALID :: "u32 \<Rightarrow> bool" where
  "NODE_VALID idx = (idx \<noteq> 0)"

text \<open>
  \<^verbatim>\<open>#define NODE_END(n) (((n)->op == NODE_LEN_OVERFLOW) ? (n)->data[1] : (n)->start + (n)->op)\<close>
  The 16-bit \<^verbatim>\<open>op\<close> is widened to 32 bits before the unsigned addition.
\<close>

definition NODE_END :: "Node \<Rightarrow> u32" where
  "NODE_END n = (if op n = NODE_LEN_OVERFLOW then data1 n else start n + ucast (op n))"

definition NODE_LEN :: "Node \<Rightarrow> u32" where
  "NODE_LEN n = NODE_END n - start n"

definition TOKEN_END :: "Node \<Rightarrow> u32" where
  "TOKEN_END n = (if op n = NODE_LEN_OVERFLOW then data1 n else start n + ucast (op n))"

subsection \<open>Arena\<close>

text \<open>\<^verbatim>\<open>#define NODE_MAX_NODES (1 << 24)\<close>\<close>

definition NODE_MAX_NODES :: u32 where
  "NODE_MAX_NODES = push_bit 24 1"

text \<open>
  \<^verbatim>\<open>typedef struct { Node *nodes; uint32_t count; uint32_t capacity;
  uint32_t token_end; uint32_t root; } NodeArray;\<close>
  The pointer \<^verbatim>\<open>nodes\<close> is modelled together with what it points to: \<open>None\<close> is
  the null pointer, \<open>Some m\<close> is the mapping obtained by \<^verbatim>\<open>node_array_init\<close>, whose
  record at index \<open>i\<close> is \<open>m i\<close>. The mapping holds \<^verbatim>\<open>NODE_MAX_NODES\<close> records.
\<close>

type_synonym node_store = "u32 \<Rightarrow> Node"

record NodeArray =
  nodes :: "node_store option"
  count :: u32
  capacity :: u32
  token_end :: u32
  root :: u32

text \<open>
  The two ways an arena operation ends without returning. \<open>NodeLimitExceeded c\<close> is the
  path \<^verbatim>\<open>fprintf(stderr, "jsopt: node limit exceeded (%u)\n", arr->capacity); abort();\<close>
  with \<open>c\<close> the number printed. \<open>MemoryFault\<close> stands for a store through the null
  pointer or past the end of the mapping, which C leaves undefined and none of the
  functions checks.
\<close>

datatype error = NodeLimitExceeded u32 | MemoryFault

text \<open>\<^verbatim>\<open>#define NODE(arr, idx) (&(arr)->nodes[(idx)])\<close>, read.\<close>

definition NODE :: "NodeArray \<Rightarrow> u32 \<Rightarrow> Node option" where
  "NODE arr idx =
     (case nodes arr of
        None \<Rightarrow> None
      | Some m \<Rightarrow> if idx < NODE_MAX_NODES then Some (m idx) else None)"

text \<open>\<^verbatim>\<open>#define NODE_KIND(arr, idx) ((arr)->nodes[(idx)].kind)\<close>\<close>

definition NODE_KIND :: "NodeArray \<Rightarrow> u32 \<Rightarrow> NodeKind option" where
  "NODE_KIND arr idx = map_option kind (NODE arr idx)"

text \<open>
  The assignments \<^verbatim>\<open>Node *n = &arr->nodes[idx]; n->kind = ...; ... n->data[1] = ...;\<close>
  of the two push functions and of \<^verbatim>\<open>EMIT\<close>: all six fields of the record at
  \<open>idx\<close> are overwritten.
\<close>

definition store_node :: "NodeArray \<Rightarrow> u32 \<Rightarrow> Node \<Rightarrow> error + NodeArray" where
  "store_node arr idx n =
     (case nodes arr of
        None \<Rightarrow> Inl MemoryFault
      | Some m \<Rightarrow>
          if idx < NODE_MAX_NODES then Inr (arr\<lparr>nodes := Some (m(idx := n))\<rparr>)
          else Inl MemoryFault)"

subsubsection \<open>node_array_init and node_array_free\<close>



text \<open>
  \<^verbatim>\<open>if (arr->nodes) munmap(arr->nodes, (size_t)arr->capacity * sizeof(Node));
  memset(arr, 0, sizeof(*arr));\<close>
  The result lists the \<^verbatim>\<open>munmap\<close> calls made, each with its length in bytes, and
  gives the arena afterwards.
\<close>

datatype syscall = Munmap nat

definition node_array_free :: "NodeArray \<Rightarrow> syscall list \<times> NodeArray" where
  "node_array_free arr =
     ((case nodes arr of None \<Rightarrow> [] | Some m \<Rightarrow> [Munmap (unat (capacity arr) * 16)]),
      arr\<lparr>nodes := None, count := 0, capacity := 0, token_end := 0, root := 0\<rparr>)"

subsubsection \<open>node_push_token, node_push, node_reserve\<close>

text \<open>
  Each function returns the index and the arena afterwards (\<open>Inr\<close>), or the way the
  process ended (\<open>Inl\<close>). The parameters \<^verbatim>\<open>kind\<close>, \<^verbatim>\<open>flags\<close>, \<^verbatim>\<open>op\<close> and
  \<^verbatim>\<open>start\<close> are \<open>k\<close>, \<open>fl\<close>, \<open>opr\<close> and \<open>st\<close>, since the fields of the record have
  those names.
\<close>

definition node_push_token ::
  "NodeArray \<Rightarrow> NodeKind \<Rightarrow> u32 \<Rightarrow> u32 \<Rightarrow> u32 \<Rightarrow> error + (u32 \<times> NodeArray)" where
  "node_push_token arr k st len line =
     (if count arr \<ge> capacity arr then Inl (NodeLimitExceeded (capacity arr))
      else
        let idx = count arr;
            arr = arr\<lparr>count := count arr + 1\<rparr>;
            n = \<lparr>kind = k, flags = 0,
                 op = (if len \<le> 0xFFFE then ucast len else NODE_LEN_OVERFLOW),
                 start = st, data0 = line,
                 data1 = (if len > 0xFFFE then st + len else 0)\<rparr>
        in case store_node arr idx n of
             Inl e \<Rightarrow> Inl e
           | Inr arr \<Rightarrow> Inr (idx, arr))"

definition node_push ::
  "NodeArray \<Rightarrow> NodeKind \<Rightarrow> u8 \<Rightarrow> u16 \<Rightarrow> u32 \<Rightarrow> u32 \<Rightarrow> u32 \<Rightarrow> error + (u32 \<times> NodeArray)" where
  "node_push arr k fl opr st d0 d1 =
     (if count arr \<ge> capacity arr then Inl (NodeLimitExceeded (capacity arr))
      else
        let idx = count arr;
            arr = arr\<lparr>count := count arr + 1\<rparr>;
            n = \<lparr>kind = k, flags = fl, op = opr, start = st, data0 = d0, data1 = d1\<rparr>
        in case store_node arr idx n of
             Inl e \<Rightarrow> Inl e
           | Inr arr \<Rightarrow> Inr (idx, arr))"

text \<open>
  \<^verbatim>\<open>uint32_t needed = arr->count + count;\<close> is a 32-bit addition; the parameter
  \<^verbatim>\<open>count\<close> is \<open>n\<close> here, since the arena's field has the name.
\<close>

definition node_reserve :: "NodeArray \<Rightarrow> u32 \<Rightarrow> error + (u32 \<times> NodeArray)" where
  "node_reserve arr n =
     (let needed = count arr + n
      in if needed > capacity arr then Inl (NodeLimitExceeded (capacity arr))
         else
           let first = count arr;
               arr = arr\<lparr>count := count arr + n\<rparr>
           in Inr (first, arr))"

subsubsection \<open>The EMIT macro\<close>

text \<open>
  \<^verbatim>\<open>EMIT(lex, k, s, e)\<close> wants \<^verbatim>\<open>lex\<close> to have a field \<^verbatim>\<open>nodes\<close> (a NodeArray) and a
  field \<^verbatim>\<open>line\<close>; they are \<open>lex_nodes\<close> and \<open>lex_line\<close> here, and \<^verbatim>\<open>lex\<close> is \<open>lx\<close>.
\<close>

record Lexer =
  lex_nodes :: NodeArray
  lex_line :: u32

definition EMIT :: "Lexer \<Rightarrow> NodeKind \<Rightarrow> u32 \<Rightarrow> u32 \<Rightarrow> error + Lexer" where
  "EMIT lx k s e =
     (let a = lex_nodes lx;
          len = e - s
      in if count a < capacity a then
           let idx = count a;
               a = a\<lparr>count := count a + 1\<rparr>;
               n = \<lparr>kind = k, flags = 0,
                    op = (if len \<le> 0xFFFE then ucast len else NODE_LEN_OVERFLOW),
                    start = s, data0 = lex_line lx,
                    data1 = (if len > 0xFFFE then e else 0)\<rparr>
           in case store_node a idx n of
                Inl err \<Rightarrow> Inl err
              | Inr a \<Rightarrow> Inr (lx\<lparr>lex_nodes := a\<rparr>)
         else
           case node_push_token a k s len (lex_line lx) of
             Inl err \<Rightarrow> Inl err
           | Inr (idx, a) \<Rightarrow> Inr (lx\<lparr>lex_nodes := a\<rparr>))"

subsection \<open>Derived notions used by the statements\<close>

text \<open>
  The record that \<^verbatim>\<open>node_push_token\<close> writes at the new index: its six assignments,
  collected.
\<close>

definition token_node :: "NodeKind \<Rightarrow> u32 \<Rightarrow> u32 \<Rightarrow> u32 \<Rightarrow> Node" where
  "token_node k st len line =
     \<lparr>kind = k, flags = 0,
      op = (if len \<le> 0xFFFE then ucast len else NODE_LEN_OVERFLOW),
      start = st, data0 = line,
      data1 = (if len > 0xFFFE then st + len else 0)\<rparr>"

text \<open>
  The arena as a successful \<^verbatim>\<open>node_array_init\<close> leaves it, and the arena after
  \<^verbatim>\<open>node_push_token(&arr, NODE_IDENT, 10, 5, 1)\<close> on it (the first scenario of
  \<^verbatim>\<open>tests/test_node.c\<close>).
\<close>

definition fresh_arena :: NodeArray where
  "fresh_arena = \<lparr>nodes = Some (\<lambda>i. zero_node), count = 1, capacity = NODE_MAX_NODES,
                   token_end = 0, root = 0\<rparr>"

definition one_token_arena :: NodeArray where
  "one_token_arena =
     \<lparr>nodes = Some ((\<lambda>i. zero_node)(1 := token_node NODE_IDENT 10 5 1)), count = 2,
      capacity = NODE_MAX_NODES, token_end = 0, root = 0\<rparr>"

text \<open>
  The three allocation operations as one step function, and a sequence of them run from
  left to right; the run stops where the process ends. It returns the indices the calls
  returned and the final arena.
\<close>

datatype alloc_op =
    PushToken NodeKind u32 u32 u32
  | Push NodeKind u8 u16 u32 u32 u32
  | Reserve u32

fun alloc :: "NodeArray \<Rightarrow> alloc_op \<Rightarrow> error + (u32 \<times> NodeArray)" where
  "alloc arr (PushToken k st len line) = node_push_token arr k st len line"
| "alloc arr (Push k fl opr st d0 d1) = node_push arr k fl opr st d0 d1"
| "alloc arr (Reserve n) = node_reserve arr n"

fun run :: "NodeArray \<Rightarrow> alloc_op list \<Rightarrow> error + (u32 list \<times> NodeArray)" where
  "run arr [] = Inr ([], arr)"
| "run arr (a # as) =
     (case alloc arr a of
        Inl e \<Rightarrow> Inl e
      | Inr (idx, arr1) \<Rightarrow>
          (case run arr1 as of
             Inl e \<Rightarrow> Inl e
           | Inr (idxs, arr2) \<Rightarrow> Inr (idx # idxs, arr2)))"

section \<open>Properties\<close>

subsection \<open>Auxiliary facts\<close>

lemma NODE_MAX_NODES_value: "NODE_MAX_NODES = 16777216"
  by (simp add: NODE_MAX_NODES_def)

lemma u32_wrap: "(4294967296 :: u32) = 0"
  by simp

lemma unat_ucast_len: "len \<le> (0xFFFE :: u32) \<Longrightarrow> unat (ucast len :: u16) = unat len"
  by (simp add: unsigned_ucast_eq word_le_nat_alt take_bit_nat_eq_self)

lemma ucast_len_not_overflow: "len \<le> (0xFFFE :: u32) \<Longrightarrow> (ucast len :: u16) \<noteq> 0xFFFF"
  using unat_ucast_len [of len] by (auto simp: word_le_nat_alt word_unat_eq_iff)

lemma ucast_ucast_len: "len \<le> (0xFFFE :: u32) \<Longrightarrow> (ucast (ucast len :: u16) :: u32) = len"
  using unat_ucast_len [of len]
  by (simp add: word_unat_eq_iff unsigned_ucast_eq unsigned_take_bit_eq)

lemma store_node_Inr:
  "store_node arr idx n = Inr arr' \<Longrightarrow>
     \<exists>m. nodes arr = Some m \<and> idx < NODE_MAX_NODES \<and> arr' = arr\<lparr>nodes := Some (m(idx := n))\<rparr>"
  by (auto simp: store_node_def split: option.splits if_splits)

text \<open>What a returning call of each allocation function has done.\<close>

lemma node_push_token_Inr:
  assumes "node_push_token arr k st len line = Inr (idx, arr')"
  shows "count arr < capacity arr \<and> idx = count arr \<and> idx < NODE_MAX_NODES \<and>
         (\<exists>m. nodes arr = Some m \<and>
              arr' = arr\<lparr>count := count arr + 1,
                        nodes := Some (m(count arr := token_node k st len line))\<rparr>)"
  using assms
  by (auto simp: node_push_token_def Let_def token_node_def not_le
      split: if_splits sum.splits dest!: store_node_Inr)

lemma node_push_Inr:
  assumes "node_push arr k fl opr st d0 d1 = Inr (idx, arr')"
  shows "count arr < capacity arr \<and> idx = count arr \<and> idx < NODE_MAX_NODES \<and>
         (\<exists>m. nodes arr = Some m \<and>
              arr' = arr\<lparr>count := count arr + 1,
                        nodes := Some (m(count arr :=
                          \<lparr>kind = k, flags = fl, op = opr, start = st,
                           data0 = d0, data1 = d1\<rparr>))\<rparr>)"
  using assms
  by (auto simp: node_push_def Let_def not_le
      split: if_splits sum.splits dest!: store_node_Inr)

lemma node_reserve_Inr:
  assumes "node_reserve arr n = Inr (first, arr')"
  shows "count arr + n \<le> capacity arr \<and> first = count arr \<and>
         arr' = arr\<lparr>count := count arr + n\<rparr>"
  using assms by (auto simp: node_reserve_def Let_def not_less split: if_splits)

lemma NODE_pushed_token:
  assumes "node_push_token arr k st len line = Inr (idx, arr')"
  shows "NODE arr' idx = Some (token_node k st len line)"
  using node_push_token_Inr [OF assms] by (auto simp: NODE_def)

lemma NODE_END_token_node: "NODE_END (token_node k st len line) = st + len"
  by (simp add: NODE_END_def token_node_def NODE_LEN_OVERFLOW_def
      ucast_len_not_overflow ucast_ucast_len not_le)

text \<open>
  The limit check of the two push functions: a full arena ends the process with the
  capacity in the diagnostic. The check of \<^verbatim>\<open>node_reserve\<close> does the same as long as
  \<^verbatim>\<open>arr->count + count\<close> does not exceed 32 bits.
\<close>

lemma node_push_token_limit:
  "capacity arr \<le> count arr \<Longrightarrow>
     node_push_token arr k st len line = Inl (NodeLimitExceeded (capacity arr))"
  by (simp add: node_push_token_def)

lemma node_push_limit:
  "capacity arr \<le> count arr \<Longrightarrow>
     node_push arr k fl opr st d0 d1 = Inl (NodeLimitExceeded (capacity arr))"
  by (simp add: node_push_def)

lemma node_reserve_limit:
  assumes "unat (count arr) + unat n < 2 ^ 32"
    and "unat (capacity arr) < unat (count arr) + unat n"
  shows "node_reserve arr n = Inl (NodeLimitExceeded (capacity arr))"
proof -
  have "unat (count arr + n) = unat (count arr) + unat n"
    using assms(1) by (simp add: unat_word_ariths)
  with assms(2) have "capacity arr < count arr + n"
    by (simp add: word_less_nat_alt)
  then show ?thesis by (simp add: node_reserve_def Let_def)
qed

subsection \<open>Token records\<close>

text \<open>
  C1. For every call of \<^verbatim>\<open>node_push_token\<close> with arguments kind, start, len, line that
  returns: if \<open>len \<le> 65534\<close> the new record has \<open>op = len\<close> and \<open>data[1] = 0\<close>;
  otherwise it has \<open>op = 0xFFFF\<close>, the overflow sentinel, and \<open>data[1] = start + len\<close>
  in 32-bit arithmetic. In both cases \<open>data[0]\<close> is the line, the flags are zero, and
  kind and start are stored as given.
\<close>

theorem node_push_token_record:
  assumes "node_push_token arr k st len line = Inr (idx, arr')"
  shows "\<exists>n. NODE arr' idx = Some n \<and> kind n = k \<and> flags n = 0 \<and> start n = st
            \<and> data0 n = line
            \<and> (if len \<le> 65534 then unat (op n) = unat len \<and> data1 n = 0
               else op n = 0xFFFF \<and> data1 n = st + len)"
  using NODE_pushed_token [OF assms]
  by (auto simp: token_node_def NODE_LEN_OVERFLOW_def unat_ucast_len)

theorem node_push_token_record_witness:
  "node_push_token fresh_arena NODE_IDENT 10 5 1 = Inr (1, one_token_arena)
   \<and> (\<exists>n. NODE one_token_arena 1 = Some n \<and> kind n = NODE_IDENT \<and> flags n = 0
           \<and> start n = 10 \<and> data0 n = 1 \<and> unat (op n) = 5 \<and> data1 n = 0)"
proof -
  have h: "node_push_token fresh_arena NODE_IDENT 10 5 1 = Inr (1, one_token_arena)"
    by (simp add: node_push_token_def store_node_def fresh_arena_def one_token_arena_def
        token_node_def NODE_MAX_NODES_value word_le_nat_alt)
  from node_push_token_record [OF h] show ?thesis using h by simp
qed

text \<open>
  C2. For every record written by a returning \<^verbatim>\<open>node_push_token\<close> call with arguments
  start and len (any 32-bit values), the derived end offset (\<^verbatim>\<open>NODE_END\<close>:
  \<open>data[1]\<close> if \<open>op\<close> is the overflow sentinel, else \<open>start + op\<close>) minus start is
  len in 32-bit arithmetic, whether or not the overflow encoding was taken. The same
  holds of \<^verbatim>\<open>TOKEN_END\<close>, and \<^verbatim>\<open>NODE_LEN\<close> is len.
\<close>

theorem token_end_minus_start:
  assumes "node_push_token arr k st len line = Inr (idx, arr')"
  shows "\<exists>n. NODE arr' idx = Some n \<and> NODE_END n - start n = len \<and> NODE_LEN n = len
            \<and> TOKEN_END n - start n = len"
proof -
  let ?n = "token_node k st len line"
  have e: "NODE_END ?n = st + len" by (rule NODE_END_token_node)
  have t: "TOKEN_END ?n = NODE_END ?n" by (simp add: TOKEN_END_def NODE_END_def)
  have s: "start ?n = st" by (simp add: token_node_def)
  show ?thesis using NODE_pushed_token [OF assms] e t s by (simp add: NODE_LEN_def)
qed

theorem token_end_minus_start_witness:
  "node_push_token fresh_arena NODE_STRING 100 70000 5 =
     Inr (1, fresh_arena\<lparr>count := 2,
               nodes := Some ((\<lambda>i. zero_node)(1 := token_node NODE_STRING 100 70000 5))\<rparr>)
   \<and> NODE_END (token_node NODE_STRING 100 70000 5) = 70100
   \<and> NODE_LEN (token_node NODE_STRING 100 70000 5) = 70000
   \<and> op (token_node NODE_STRING 100 70000 5) = NODE_LEN_OVERFLOW"
proof -
  let ?a = "fresh_arena\<lparr>count := 2,
               nodes := Some ((\<lambda>i. zero_node)(1 := token_node NODE_STRING 100 70000 5))\<rparr>"
  have h: "node_push_token fresh_arena NODE_STRING 100 70000 5 = Inr (1, ?a)"
    by (simp add: node_push_token_def store_node_def fresh_arena_def
        token_node_def NODE_MAX_NODES_value word_le_nat_alt)
  have n: "NODE ?a 1 = Some (token_node NODE_STRING 100 70000 5)"
    by (simp add: NODE_def fresh_arena_def NODE_MAX_NODES_value)
  have s: "start (token_node NODE_STRING 100 70000 5) = 100"
    and o: "op (token_node NODE_STRING 100 70000 5) = NODE_LEN_OVERFLOW"
    by (simp_all add: token_node_def)
  from token_end_minus_start [OF h] n s o show ?thesis using h by simp
qed

subsection \<open>Kind classification\<close>

text \<open>
  C6. For every 8-bit kind \<open>k\<close> exactly one of the six classes leaf, keyword,
  punctuation, operator, end-of-input, compound holds, where leaf is \<open>k < 16\<close>, keyword
  is \<open>16 \<le> k < 56\<close>, punctuation is \<open>56 \<le> k < 72\<close>, operator is \<open>72 \<le> k \<le> 126\<close>
  (so neither 127 nor 0 is an operator), token is \<open>k \<le> 127\<close> and compound is
  \<open>k > 127\<close>; token is the union of the first five classes and compound is the rest.
\<close>

theorem kind_classification:
  "length (filter id [IS_LEAF k, IS_KEYWORD k, IS_PUNCT k, IS_OPERATOR k, is_eof k,
                      IS_COMPOUND k]) = 1
   \<and> IS_LEAF k = (unat k < 16)
   \<and> IS_KEYWORD k = (16 \<le> unat k \<and> unat k < 56)
   \<and> IS_PUNCT k = (56 \<le> unat k \<and> unat k < 72)
   \<and> IS_OPERATOR k = (72 \<le> unat k \<and> unat k \<le> 126)
   \<and> is_eof k = (unat k = 127)
   \<and> IS_TOKEN k = (unat k \<le> 127)
   \<and> IS_COMPOUND k = (unat k > 127)
   \<and> IS_OPERATOR 127 = False \<and> IS_OPERATOR 0 = False
   \<and> IS_TOKEN k = (IS_LEAF k \<or> IS_KEYWORD k \<or> IS_PUNCT k \<or> IS_OPERATOR k \<or> is_eof k)
   \<and> IS_COMPOUND k = (\<not> IS_TOKEN k)"
  unfolding IS_LEAF_def IS_KEYWORD_def IS_PUNCT_def IS_OPERATOR_def is_eof_def IS_TOKEN_def
    IS_COMPOUND_def NODE_EOF_def
  by (auto simp: word_le_nat_alt word_less_nat_alt word_unat_eq_iff)

subsection \<open>Initialisation and destruction\<close>



text \<open>
  C9. \<^verbatim>\<open>node_array_free\<close> always returns; after it the pointer and the four counters
  of the arena are zero; it unmaps the mapping when the pointer was not null; and a
  second call on the arena it left makes no system call and leaves the fields zero.
\<close>

theorem node_array_free_idempotent:
  "snd (node_array_free arr) =
     \<lparr>nodes = None, count = 0, capacity = 0, token_end = 0, root = 0\<rparr>
   \<and> fst (node_array_free arr) =
       (case nodes arr of None \<Rightarrow> [] | Some m \<Rightarrow> [Munmap (unat (capacity arr) * 16)])
   \<and> node_array_free (snd (node_array_free arr)) = ([], snd (node_array_free arr))"
  by (simp add: node_array_free_def)

subsection \<open>Allocation\<close>

text \<open>
  The frame of a returning allocation: the fields \<open>capacity\<close>, \<open>token_end\<close> and
  \<open>root\<close> keep their values, and so does the record at every index below the count
  before the call. When that count is 0 this says nothing of the null record.
\<close>

lemma alloc_frame:
  assumes "alloc arr a = Inr (idx, arr')"
  shows "capacity arr' = capacity arr \<and> token_end arr' = token_end arr \<and> root arr' = root arr
         \<and> (\<forall>i. i < count arr \<longrightarrow> NODE arr' i = NODE arr i)"
proof (cases a)
  case (PushToken k st len line)
  with assms have "node_push_token arr k st len line = Inr (idx, arr')" by simp
  from node_push_token_Inr [OF this] show ?thesis by (auto simp: NODE_def)
next
  case (Push k fl opr st d0 d1)
  with assms have "node_push arr k fl opr st d0 d1 = Inr (idx, arr')" by simp
  from node_push_Inr [OF this] show ?thesis by (auto simp: NODE_def)
next
  case (Reserve n)
  with assms have "node_reserve arr n = Inr (idx, arr')" by simp
  from node_reserve_Inr [OF this] show ?thesis by (auto simp: NODE_def)
qed

lemma alloc_frame_example:
  "alloc one_token_arena (Push NODE_BINARY 0 72 5 1 1) =
     Inr (2, one_token_arena\<lparr>count := 3,
               nodes := Some ((\<lambda>i. zero_node)
                 (1 := token_node NODE_IDENT 10 5 1,
                  2 := \<lparr>kind = NODE_BINARY, flags = 0, op = 72, start = 5,
                        data0 = 1, data1 = 1\<rparr>))\<rparr>)
   \<and> NODE (one_token_arena\<lparr>count := 3,
               nodes := Some ((\<lambda>i. zero_node)
                 (1 := token_node NODE_IDENT 10 5 1,
                  2 := \<lparr>kind = NODE_BINARY, flags = 0, op = 72, start = 5,
                        data0 = 1, data1 = 1\<rparr>))\<rparr>) 1
       = NODE one_token_arena 1
   \<and> NODE (one_token_arena\<lparr>count := 3,
               nodes := Some ((\<lambda>i. zero_node)
                 (1 := token_node NODE_IDENT 10 5 1,
                  2 := \<lparr>kind = NODE_BINARY, flags = 0, op = 72, start = 5,
                        data0 = 1, data1 = 1\<rparr>))\<rparr>) 0
       = NODE one_token_arena 0"
proof -
  let ?a = "one_token_arena\<lparr>count := 3,
               nodes := Some ((\<lambda>i. zero_node)
                 (1 := token_node NODE_IDENT 10 5 1,
                  2 := \<lparr>kind = NODE_BINARY, flags = 0, op = 72, start = 5,
                        data0 = 1, data1 = 1\<rparr>))\<rparr>"
  have h: "alloc one_token_arena (Push NODE_BINARY 0 72 5 1 1) = Inr (2, ?a)"
    by (simp add: node_push_def store_node_def one_token_arena_def NODE_MAX_NODES_value
        word_le_nat_alt)
  have c: "(1 :: u32) < count one_token_arena" "(0 :: u32) < count one_token_arena"
    by (simp_all add: one_token_arena_def)
  from alloc_frame [OF h] have "\<forall>i. i < count one_token_arena \<longrightarrow> NODE ?a i = NODE one_token_arena i"
    by blast
  with c have "NODE ?a 1 = NODE one_token_arena 1" "NODE ?a 0 = NODE one_token_arena 0"
    by blast+
  with h show ?thesis by blast
qed

text \<open>
  C10. For every lexer state and all arguments \<open>k\<close>, \<open>s\<close>, \<open>e\<close>, the macro
  \<^verbatim>\<open>EMIT(lex, k, s, e)\<close> leaves the arena as
  \<^verbatim>\<open>node_push_token(&lex->nodes, k, s, e - s, lex->line)\<close> does, its returned index
  dropped: the inline path and the function write the same record, the overflow
  encoding with end offset \<open>e = s + (e - s)\<close> included, and end the process alike.
\<close>

theorem EMIT_eq_node_push_token:
  "EMIT lx k s e =
     (case node_push_token (lex_nodes lx) k s (e - s) (lex_line lx) of
        Inl err \<Rightarrow> Inl err
      | Inr (idx, a) \<Rightarrow> Inr (lx\<lparr>lex_nodes := a\<rparr>))"
  by (auto simp: EMIT_def node_push_token_def Let_def not_less split: sum.splits)

subsection \<open>The limit check of node_reserve\<close>

text \<open>
  C3. The claim: for every arena and every allocation call, \<^verbatim>\<open>node_reserve(n)\<close> for any
  \<open>n\<close> included, if the allocation would advance \<open>count\<close> beyond \<open>capacity\<close> the
  process ends with a diagnostic naming the capacity, never returning and never
  corrupting \<open>count\<close>. The code computes \<^verbatim>\<open>needed = arr->count + count\<close> in 32 bits:
  on a fresh arena, \<^verbatim>\<open>node_reserve(&arr, 0xFFFFFFFF)\<close> asks for more than the capacity,
  returns index 1 all the same and leaves \<open>count = 0\<close>.
\<close>

theorem node_reserve_wraps_past_capacity:
  "unat (capacity fresh_arena) < unat (count fresh_arena) + unat (0xFFFFFFFF :: u32)
   \<and> node_reserve fresh_arena 0xFFFFFFFF = Inr (1, fresh_arena\<lparr>count := 0\<rparr>)"
  by (simp add: node_reserve_def fresh_arena_def NODE_MAX_NODES_value)

text \<open>
  C4. The claim: a returning push returns the count before the call, which is at least
  1, and adds 1 to it; a returning \<^verbatim>\<open>node_reserve(n)\<close> returns the count before the
  call and adds \<open>n\<close>; no allocation ever returns index 0. On a fresh arena,
  \<^verbatim>\<open>node_reserve(&arr, 0xFFFFFFFF)\<close> returns 1 and wraps \<open>count\<close> to 0, and the
  \<^verbatim>\<open>node_push_token\<close> after it returns the null index 0 and overwrites the null record.
\<close>

theorem push_after_wrapped_reserve_returns_null_index:
  "run fresh_arena [Reserve 0xFFFFFFFF, PushToken NODE_IDENT 10 5 1] =
     Inr ([1, NODE_NULL_IDX],
          \<lparr>nodes = Some ((\<lambda>i. zero_node)(0 := token_node NODE_IDENT 10 5 1)), count = 1,
           capacity = NODE_MAX_NODES, token_end = 0, root = 0\<rparr>)"
  by (simp add: node_reserve_def node_push_token_def store_node_def fresh_arena_def
      NODE_MAX_NODES_value NODE_NULL_IDX_def token_node_def u32_wrap)

text \<open>
  C7. The claim: in every arena reached from initialisation by pushes and reserves,
  every slot at an index at or above \<open>count\<close> is all-zero, so the slots that
  \<^verbatim>\<open>node_reserve\<close> hands out read as zero. After one \<^verbatim>\<open>node_push_token\<close> on a fresh
  arena, \<^verbatim>\<open>node_reserve(&arr, 0xFFFFFFFF)\<close> returns 2 and wraps \<open>count\<close> back to 1
  while slot 1 holds the token; \<^verbatim>\<open>node_reserve(&arr, 1)\<close> then returns 1, a slot that
  is not zero.
\<close>

theorem wrapped_reserve_hands_out_written_slot:
  "run fresh_arena [PushToken NODE_IDENT 10 5 1, Reserve 0xFFFFFFFF] =
     Inr ([1, 2], one_token_arena\<lparr>count := 1\<rparr>)
   \<and> node_reserve (one_token_arena\<lparr>count := 1\<rparr>) 1 = Inr (1, one_token_arena)
   \<and> NODE (one_token_arena\<lparr>count := 1\<rparr>) 1 = Some (token_node NODE_IDENT 10 5 1)
   \<and> NODE one_token_arena 1 = Some (token_node NODE_IDENT 10 5 1)
   \<and> token_node NODE_IDENT 10 5 1 \<noteq> zero_node"
  by (simp add: node_reserve_def node_push_token_def store_node_def fresh_arena_def
      NODE_MAX_NODES_value one_token_arena_def token_node_def NODE_def zero_node_def
      word_le_nat_alt)

text \<open>
  C8. The claim: every allocation operation that returns leaves unchanged the record at
  every index below the count before the call, the null record at index 0 included, and
  the fields \<open>capacity\<close>, \<open>token_end\<close> and \<open>root\<close>. On a fresh arena,
  \<^verbatim>\<open>node_reserve(&arr, 0xFFFFFFFF)\<close> returns 1 and wraps \<open>count\<close> to 0; the null
  record is still all-zero then. The \<^verbatim>\<open>node_push_token\<close> after it returns, takes
  index 0, and the null record now holds the token.
\<close>

theorem push_after_wrapped_reserve_overwrites_null_record:
  "node_reserve fresh_arena 0xFFFFFFFF = Inr (1, fresh_arena\<lparr>count := 0\<rparr>)
   \<and> NODE (fresh_arena\<lparr>count := 0\<rparr>) NODE_NULL_IDX = Some zero_node
   \<and> alloc (fresh_arena\<lparr>count := 0\<rparr>) (PushToken NODE_IDENT 10 5 1) =
       Inr (NODE_NULL_IDX,
            \<lparr>nodes = Some ((\<lambda>i. zero_node)(0 := token_node NODE_IDENT 10 5 1)), count = 1,
             capacity = NODE_MAX_NODES, token_end = 0, root = 0\<rparr>)
   \<and> NODE \<lparr>nodes = Some ((\<lambda>i. zero_node)(0 := token_node NODE_IDENT 10 5 1)), count = 1,
            capacity = NODE_MAX_NODES, token_end = 0, root = 0\<rparr> NODE_NULL_IDX
       = Some (token_node NODE_IDENT 10 5 1)
   \<and> token_node NODE_IDENT 10 5 1 \<noteq> zero_node"
  by (simp add: node_reserve_def node_push_token_def store_node_def fresh_arena_def
      NODE_MAX_NODES_value NODE_NULL_IDX_def token_node_def NODE_def zero_node_def u32_wrap)

end
